theory Spec2Isabelle
  imports Complex_Main "HOL-Library.Sublist"
begin

section \<open>Data model (app/models/schemas.py)\<close>

text \<open>
  Timestamps returned by \<^verbatim>\<open>datetime.utcnow()\<close> are abstract clock readings. Every
  function that reads the clock takes the reading as an argument.
\<close>

type_synonym datetime = nat

text \<open>
  Python floats are modelled as reals: the code only stores and passes the percent value
  on, it performs no arithmetic on it.
\<close>

record Progress =
  percent :: real
  eta :: string
  speed :: string
  status_message :: string

text \<open>
  \<^verbatim>\<open>DownloadTask\<close>. \<^verbatim>\<open>Optional[str]\<close> fields are \<open>string option\<close>. The field
  \<^verbatim>\<open>id\<close> is named \<open>task_id\<close> here; the field \<^verbatim>\<open>info\<close> is never written by the
  service and is left out.
\<close>

record DownloadTask =
  task_id :: string
  url :: string
  format :: "string option"
  quality :: "string option"
  browser :: "string option"
  status :: string
  progress :: Progress
  filepath :: "string option"
  error :: "string option"
  startTime :: datetime
  endTime :: "datetime option"

text \<open>\<^verbatim>\<open>DownloadRequest\<close> after schema validation: \<^verbatim>\<open>url\<close> is present.\<close>

record DownloadRequest =
  req_url :: string
  req_format :: "string option"
  req_quality :: "string option"
  browserForCookies :: "string option"
  proxy :: "string option"

text \<open>The module-level dict \<^verbatim>\<open>download_tasks\<close>.\<close>

type_synonym registry = "string \<rightharpoonup> DownloadTask"

section \<open>Python helpers\<close>

text \<open>Truthiness of an \<^verbatim>\<open>Optional[str]\<close>: \<^verbatim>\<open>None\<close> and the empty string are falsy.\<close>

fun truthy :: "string option \<Rightarrow> bool" where
  "truthy None = False"
| "truthy (Some s) = (s \<noteq> [])"

text \<open>
  \<^verbatim>\<open>os.path.basename\<close> of posixpath: everything after the last slash
  (\<^verbatim>\<open>i = p.rfind('/') + 1; return p[i:]\<close>).
\<close>

definition basename :: "string \<Rightarrow> string" where
  "basename p = rev (takeWhile (\<lambda>c. c \<noteq> CHR ''/'') (rev p))"

section \<open>ProgressReporter (app/services/download_service.py)\<close>

text \<open>
  \<^verbatim>\<open>update_progress\<close>: looks the task up and, when it exists, overwrites the four
  progress fields. The \<^verbatim>\<open>isinstance\<close> repair branch cannot fire on a typed record.
\<close>

definition update_progress ::
  "string \<Rightarrow> real \<Rightarrow> string \<Rightarrow> string \<Rightarrow> string \<Rightarrow> registry \<Rightarrow> registry" where
  "update_progress tid pc e sp msg tasks =
     (case tasks tid of
        None \<Rightarrow> tasks
      | Some task \<Rightarrow>
          tasks(tid \<mapsto> task\<lparr>progress :=
            (progress task)\<lparr>percent := pc, eta := e, speed := sp, status_message := msg\<rparr>\<rparr>))"

text \<open>
  \<^verbatim>\<open>set_status\<close>: looks the task up and, when it exists, overwrites status, error,
  filepath (base name of a truthy argument, else \<^verbatim>\<open>None\<close>) and endTime.
\<close>

definition set_status ::
  "string \<Rightarrow> string \<Rightarrow> string option \<Rightarrow> string option \<Rightarrow> datetime \<Rightarrow> registry \<Rightarrow> registry" where
  "set_status tid st err fp now tasks =
     (case tasks tid of
        None \<Rightarrow> tasks
      | Some task \<Rightarrow>
          tasks(tid \<mapsto> task\<lparr>status := st, error := err,
            filepath := (if truthy fp then Some (basename (the fp)) else None),
            endTime := Some now\<rparr>))"

definition terminal :: "string \<Rightarrow> bool" where
  "terminal st = (st = ''completed'' \<or> st = ''failed'')"

section \<open>Exceptions\<close>

text \<open>
  Python exceptions that reach \<^verbatim>\<open>perform_download\<close>, by the handler that matches them:
  \<^verbatim>\<open>yt_dlp.DownloadError\<close>, any other instance of \<^verbatim>\<open>Exception\<close>, and exceptions that
  derive from \<^verbatim>\<open>BaseException\<close> only (\<^verbatim>\<open>asyncio.CancelledError\<close>,
  \<^verbatim>\<open>KeyboardInterrupt\<close>, \<^verbatim>\<open>SystemExit\<close>), which \<^verbatim>\<open>except Exception\<close> does not catch.
  The argument is \<^verbatim>\<open>str(e)\<close>.
\<close>

datatype exn = DownloadError string | OtherException string | NonException string

fun str_exn :: "exn \<Rightarrow> string" where
  "str_exn (DownloadError m) = m"
| "str_exn (OtherException m) = m"
| "str_exn (NonException m) = m"

fun is_Exception :: "exn \<Rightarrow> bool" where
  "is_Exception (NonException m) = False"
| "is_Exception e = True"

text \<open>\<^verbatim>\<open>str(KeyError(k))\<close> is the key in single quotes.\<close>

definition key_error :: "string \<Rightarrow> exn" where
  "key_error k = OtherException ([CHR 0x27] @ k @ [CHR 0x27])"

section \<open>The progress hook of perform_download\<close>

text \<open>
  The dictionary \<^verbatim>\<open>d\<close> that yt-dlp passes to a progress hook, restricted to the keys
  the code reads. \<open>None\<close> is an absent key. \<open>d_requested_downloads\<close> lists, for each
  entry of \<^verbatim>\<open>d['requested_downloads']\<close>, the value of its key \<^verbatim>\<open>'filepath'\<close>.
\<close>

record hook_dict =
  d_status :: "string option"
  d_percent_str :: "string option"
  d_eta_str :: "string option"
  d_speed_str :: "string option"
  d_filename :: "string option"
  d_filepath :: "string option"
  d_requested_downloads :: "string option list option"

text \<open>
  What the code takes from libraries and from the file system: the substitution of the
  compiled regular expression \<^verbatim>\<open>ansi_escape.sub('', s)\<close>, \<^verbatim>\<open>float(s)\<close> (which
  raises on a malformed string) and \<^verbatim>\<open>os.path.exists\<close>.
\<close>

record pyenv =
  ansi_sub :: "string \<Rightarrow> string"
  float_of :: "string \<Rightarrow> exn + real"
  path_exists :: "string \<Rightarrow> bool"

text \<open>
  \<^verbatim>\<open>str.strip()\<close> removes the characters for which \<^verbatim>\<open>str.isspace\<close> holds; a
  \<open>char\<close> is a code point below 256, and among those these are the white space.
  Then \<^verbatim>\<open>s.replace('%', '')\<close> and \<^verbatim>\<open>d.get(k, 'N/A')\<close>.
\<close>

definition is_space :: "char \<Rightarrow> bool" where
  "is_space c = (c \<in> set [CHR '' '', CHR 0x09, CHR 0x0A, CHR 0x0B, CHR 0x0C, CHR 0x0D,
                           CHR 0x1C, CHR 0x1D, CHR 0x1E, CHR 0x1F, CHR 0x85, CHR 0xA0])"

definition strip :: "string \<Rightarrow> string" where
  "strip s = rev (dropWhile is_space (rev (dropWhile is_space s)))"

definition replace_percent :: "string \<Rightarrow> string" where
  "replace_percent s = filter (\<lambda>c. c \<noteq> CHR ''%'') s"

definition get_or_NA :: "string option \<Rightarrow> string" where
  "get_or_NA v = (case v of None \<Rightarrow> ''N/A'' | Some s \<Rightarrow> s)"

text \<open>
  The closure \<^verbatim>\<open>progress_hook\<close>. Its state is the captured variable
  \<^verbatim>\<open>final_info_dict\<close> and the registry. An exception leaves the state as it is at the
  point of the raise, so the state is returned in both cases.
\<close>

type_synonym hook_state = "hook_dict option \<times> registry"

definition progress_hook ::
  "pyenv \<Rightarrow> string \<Rightarrow> datetime \<Rightarrow> hook_dict \<Rightarrow> hook_state \<Rightarrow> exn option \<times> hook_state" where
  "progress_hook env tid now d s =
     (case d_status d of
        None \<Rightarrow> (Some (key_error ''status''), s)
      | Some st \<Rightarrow>
          if st = ''downloading'' then
            (let percent_raw = get_or_NA (d_percent_str d);
                 percent_cleaned = strip (replace_percent (ansi_sub env percent_raw))
             in case (if percent_cleaned \<noteq> ''N/A'' \<and> percent_cleaned \<noteq> []
                      then float_of env percent_cleaned else Inr 0) of
                  Inl e \<Rightarrow> (Some e, s)
                | Inr pc \<Rightarrow>
                    (None, fst s,
                     update_progress tid pc
                       (strip (get_or_NA (d_eta_str d)))
                       (strip (get_or_NA (d_speed_str d)))
                       (''Downloading: '' @ get_or_NA (d_filename d) @ '' '' @ percent_cleaned @ ''%'')
                       (snd s)))
          else if st = ''finished'' then
            (None, Some d, set_status tid ''post-processing'' None None now (snd s))
          else (None, s))"

section \<open>The download collaborator\<close>

text \<open>
  The options \<^verbatim>\<open>ydl_opts\<close> that depend on the request or the environment; the constant
  entries (retries, timeouts, logger, metadata) are left out. \<open>None\<close> in
  \<open>opt_merge_output_format\<close> is the deleted key.
\<close>

record ydl_opts =
  opt_format :: string
  opt_outtmpl :: string
  opt_ffmpeg_location :: string
  opt_merge_output_format :: "string option"
  opt_extract_audio :: bool
  opt_writethumbnail :: bool
  opt_skip_download :: bool
  opt_cookiesfrombrowser :: "string option"
  opt_proxy :: "string option"

text \<open>\<^verbatim>\<open>str.lower()\<close> on ASCII letters.\<close>

definition lower_char :: "char \<Rightarrow> char" where
  "lower_char c =
     (let n = (of_char c :: nat) in if 65 \<le> n \<and> n \<le> 90 then char_of (n + 32) else c)"

definition lower :: "string \<Rightarrow> string" where
  "lower s = map lower_char s"

definition build_ydl_opts :: "string \<Rightarrow> string option \<Rightarrow> DownloadRequest \<Rightarrow> ydl_opts" where
  "build_ydl_opts ddir ffmpeg_env request =
     (let outtmpl = ddir @ ''/%(title)s (%(id)s).%(ext)s'';
          o0 = \<lparr>opt_format = ''bestvideo+bestaudio/best'',
                opt_outtmpl = outtmpl,
                opt_ffmpeg_location = (if truthy ffmpeg_env then the ffmpeg_env else ''ffmpeg''),
                opt_merge_output_format = Some ''mp4'',
                opt_extract_audio = False,
                opt_writethumbnail = False,
                opt_skip_download = False,
                opt_cookiesfrombrowser = None,
                opt_proxy = None\<rparr>;
          o1 = (if truthy (req_format request) \<and> truthy (req_quality request) then
                  (if sublist ''audio'' (lower (the (req_format request))) then
                     o0\<lparr>opt_format := the (req_quality request),
                        opt_extract_audio := True,
                        opt_outtmpl := outtmpl,
                        opt_merge_output_format := None\<rparr>
                   else if lower (the (req_format request)) = ''image'' then
                     o0\<lparr>opt_format := ''best'',
                        opt_writethumbnail := True,
                        opt_skip_download := True,
                        opt_outtmpl := outtmpl,
                        opt_merge_output_format := None\<rparr>
                   else
                     o0\<lparr>opt_format := the (req_quality request) @ ''+bestaudio/bestvideo+bestaudio/best'',
                        opt_merge_output_format := req_format request\<rparr>)
                else o0);
          o2 = (if truthy (browserForCookies request)
                then o1\<lparr>opt_cookiesfrombrowser := browserForCookies request\<rparr> else o1)
      in if truthy (proxy request) then o2\<lparr>opt_proxy := proxy request\<rparr> else o2)"

text \<open>
  One execution of the collaborator, as \<^verbatim>\<open>perform_download\<close> sees it:
  whether constructing \<^verbatim>\<open>YoutubeDL(ydl_opts)\<close> raises; the calls that
  \<^verbatim>\<open>ydl.download\<close> makes to the progress hook, in order, each with the clock reading
  at that moment; whether \<^verbatim>\<open>ydl.download\<close> itself raises after them; and what the
  fallback \<^verbatim>\<open>extract_info\<close> followed by \<^verbatim>\<open>prepare_filename\<close> yields. An exception
  raised by the hook leaves \<^verbatim>\<open>ydl.download\<close> at once. \<open>end_time\<close> is the clock
  reading when the outcome is reported. The collaborator is a function of the options
  and the URL. Closing the collaborator at the end of the \<^verbatim>\<open>with\<close> block and the
  calls of the logger are taken not to raise.
\<close>

record collab_run =
  construct_error :: "exn option"
  hook_calls :: "(datetime \<times> hook_dict) list"
  download_error :: "exn option"
  predicted :: "exn + string"
  end_time :: datetime

type_synonym collaborator = "ydl_opts \<Rightarrow> string \<Rightarrow> collab_run"

text \<open>
  The calls of the hook during \<^verbatim>\<open>ydl.download\<close>. The result is the exception that
  left the hook (if any), the state reached, and the registry after each completed call.
\<close>

fun run_hooks ::
  "pyenv \<Rightarrow> string \<Rightarrow> (datetime \<times> hook_dict) list \<Rightarrow> hook_state \<Rightarrow>
   exn option \<times> hook_state \<times> registry list" where
  "run_hooks env tid [] s = (None, s, [])"
| "run_hooks env tid ((now, d) # ds) s =
     (case progress_hook env tid now d s of
        (Some e, s') \<Rightarrow> (Some e, s', [])
      | (None, s') \<Rightarrow>
          (case run_hooks env tid ds s' of (r, s'', obs) \<Rightarrow> (r, s'', snd s' # obs)))"

text \<open>\<^verbatim>\<open>os.path.join\<close> of posixpath for two components.\<close>

definition os_path_join :: "string \<Rightarrow> string \<Rightarrow> string" where
  "os_path_join a b =
     (if b \<noteq> [] \<and> hd b = CHR ''/'' then b
      else if a = [] \<or> last a = CHR ''/'' then a @ b
      else a @ ''/'' @ b)"

definition could_not_determine :: string where
  "could_not_determine = ''Could not determine final downloaded file path after completion.''"

text \<open>
  Lines 231 to 254: the three strategies for the final path, then the raise when none
  gave a truthy path. The inner \<^verbatim>\<open>except Exception\<close> turns a failed prediction into
  \<^verbatim>\<open>None\<close>.
\<close>

definition resolve_final_path ::
  "pyenv \<Rightarrow> string \<Rightarrow> collab_run \<Rightarrow> hook_dict option \<Rightarrow> exn + string" where
  "resolve_final_path env ddir run fin =
     (let found =
        (if fin \<noteq> None \<and> truthy (d_filepath (the fin)) then Inr (d_filepath (the fin))
         else if fin \<noteq> None \<and> d_requested_downloads (the fin) \<noteq> None
                 \<and> the (d_requested_downloads (the fin)) \<noteq> [] then
           (case hd (the (d_requested_downloads (the fin))) of
              None \<Rightarrow> Inl (key_error ''filepath'')
            | Some p \<Rightarrow> Inr (Some p))
         else
           (case predicted run of
              Inl e \<Rightarrow> if is_Exception e then Inr None else Inl e
            | Inr predicted_filename \<Rightarrow>
                (let full = os_path_join ddir predicted_filename
                 in if path_exists env full then Inr (Some full) else Inr None)))
      in case found of
           Inl e \<Rightarrow> Inl e
         | Inr p \<Rightarrow> if truthy p then Inr (the p) else Inl (OtherException could_not_determine))"

text \<open>
  The body of the \<^verbatim>\<open>try\<close> statement (lines 208 to 257). The result is the exception
  that leaves the body (if any), the registry at that point, and the registries written
  on the way.
\<close>

definition download_body ::
  "pyenv \<Rightarrow> string \<Rightarrow> collab_run \<Rightarrow> string \<Rightarrow> registry \<Rightarrow>
   exn option \<times> registry \<times> registry list" where
  "download_body env ddir run tid tasks =
     (case construct_error run of
        Some e \<Rightarrow> (Some e, tasks, [])
      | None \<Rightarrow>
          (case run_hooks env tid (hook_calls run) (None, tasks) of
             (Some e, (fin, tasks'), obs) \<Rightarrow> (Some e, tasks', obs)
           | (None, (fin, tasks'), obs) \<Rightarrow>
               (case download_error run of
                  Some e \<Rightarrow> (Some e, tasks', obs)
                | None \<Rightarrow>
                    (case resolve_final_path env ddir run fin of
                       Inl e \<Rightarrow> (Some e, tasks', obs)
                     | Inr p \<Rightarrow>
                         (let done = set_status tid ''completed'' None (Some p) (end_time run) tasks'
                          in (None, done, obs @ [done]))))))"

section \<open>perform_download\<close>

text \<open>
  The background work unit. The result is the exception that propagates out of the
  coroutine (if any) and the successive registries it writes, in order; the registry it
  leaves behind is the last of them (\<open>final_registry\<close>).
\<close>

definition perform_download ::
  "pyenv \<Rightarrow> string \<Rightarrow> string option \<Rightarrow> collaborator \<Rightarrow> string \<Rightarrow> DownloadRequest \<Rightarrow> registry \<Rightarrow>
   exn option \<times> registry list" where
  "perform_download env ddir ffmpeg_env ydl tid request tasks =
     (case tasks tid of
        None \<Rightarrow> (None, [])
      | Some task \<Rightarrow>
          (let started = tasks(tid \<mapsto> task\<lparr>status := ''downloading''\<rparr>);
               run = ydl (build_ydl_opts ddir ffmpeg_env request) (req_url request)
           in case download_body env ddir run tid started of
                (None, tasks', obs) \<Rightarrow> (None, started # obs)
              | (Some e, tasks', obs) \<Rightarrow>
                  (case e of
                     DownloadError m \<Rightarrow>
                       (None, started # obs @
                          [set_status tid ''failed'' (Some (str_exn e)) None (end_time run) tasks'])
                   | OtherException m \<Rightarrow>
                       (None, started # obs @
                          [set_status tid ''failed'' (Some (str_exn e)) None (end_time run) tasks'])
                   | NonException m \<Rightarrow> (Some e, started # obs))))"

definition final_registry :: "registry \<Rightarrow> exn option \<times> registry list \<Rightarrow> registry" where
  "final_registry tasks r = last (tasks # snd r)"

text \<open>The statuses of task \<open>tid\<close> in a sequence of registries.\<close>

definition statuses :: "string \<Rightarrow> registry list \<Rightarrow> string list" where
  "statuses tid rs = concat (map (\<lambda>r. case r tid of None \<Rightarrow> [] | Some t \<Rightarrow> [status t]) rs)"

text \<open>
  The ordering of the specification on the status strings of the code:
  \<^verbatim>\<open>queued\<close>, then \<^verbatim>\<open>downloading\<close> (the specification's running), then
  \<^verbatim>\<open>post-processing\<close>, then the two terminal statuses.
\<close>

definition rank :: "string \<Rightarrow> nat" where
  "rank st =
     (if st = ''queued'' then 0
      else if st = ''downloading'' then 1
      else if st = ''post-processing'' then 2
      else 3)"

definition known_status :: "string \<Rightarrow> bool" where
  "known_status st =
     (st \<in> set [''queued'', ''downloading'', ''post-processing'', ''completed'', ''failed''])"

section \<open>Task creation and lookup\<close>

text \<open>
  The server state: the registry and the coroutines handed to
  \<^verbatim>\<open>asyncio.create_task\<close> that have not run yet.
\<close>

record server =
  download_tasks :: registry
  scheduled :: "(string \<times> DownloadRequest) list"

text \<open>
  \<^verbatim>\<open>initiate_download_task\<close>. The identifier \<^verbatim>\<open>str(uuid.uuid4())\<close> and the clock
  reading are arguments.
\<close>

definition initiate_download_task ::
  "string \<Rightarrow> datetime \<Rightarrow> DownloadRequest \<Rightarrow> server \<Rightarrow> string \<times> server" where
  "initiate_download_task uuid4 now request sv =
     (uuid4,
      sv\<lparr>download_tasks := (download_tasks sv)(uuid4 \<mapsto>
            \<lparr>task_id = uuid4,
             url = req_url request,
             format = req_format request,
             quality = req_quality request,
             browser = browserForCookies request,
             status = ''queued'',
             progress = \<lparr>percent = 0, eta = ''N/A'', speed = ''N/A'', status_message = ''Queued''\<rparr>,
             filepath = None,
             error = None,
             startTime = now,
             endTime = None\<rparr>),
         scheduled := scheduled sv @ [(uuid4, request)]\<rparr>)"

definition get_download_status :: "string \<Rightarrow> registry \<Rightarrow> DownloadTask option" where
  "get_download_status tid tasks = tasks tid"

section \<open>Endpoints (app/api/v1/endpoints/downloads.py)\<close>

datatype http_error = HTTPException nat string

datatype initiated = DownloadInitiatedResponse string string string string

text \<open>
  The JSON body of a submit request. \<open>None\<close> in \<open>body_url\<close> is a missing key; for the
  optional fields the outer \<open>None\<close> is a missing key (the default applies) and
  \<open>Some None\<close> an explicit null.
\<close>

record request_body =
  body_url :: "string option"
  body_format :: "string option option"
  body_quality :: "string option option"
  body_browserForCookies :: "string option option"
  body_proxy :: "string option option"

text \<open>
  Validation against the schema \<^verbatim>\<open>DownloadRequest\<close>, done by the framework before
  the handler runs: \<^verbatim>\<open>url\<close> is required (\<^verbatim>\<open>Field(...)\<close>) and must be accepted as an
  \<^verbatim>\<open>HttpUrl\<close> (the predicate is an argument); the other fields have defaults.
  A failure is answered with status 422. The URL is passed on as submitted: the
  rewriting of an accepted URL by the \<^verbatim>\<open>HttpUrl\<close> type is not modelled.
\<close>

definition validate_request :: "(string \<Rightarrow> bool) \<Rightarrow> request_body \<Rightarrow> http_error + DownloadRequest" where
  "validate_request is_http_url body =
     (case body_url body of
        None \<Rightarrow> Inl (HTTPException 422 ''Field required'')
      | Some u \<Rightarrow>
          if \<not> is_http_url u then Inl (HTTPException 422 ''Invalid URL'')
          else Inr \<lparr>req_url = u,
                    req_format = (case body_format body of None \<Rightarrow> Some ''mp4'' | Some v \<Rightarrow> v),
                    req_quality = (case body_quality body of
                                     None \<Rightarrow> Some ''bestvideo+bestaudio/best'' | Some v \<Rightarrow> v),
                    browserForCookies = (case body_browserForCookies body of None \<Rightarrow> None | Some v \<Rightarrow> v),
                    proxy = (case body_proxy body of None \<Rightarrow> None | Some v \<Rightarrow> v)\<rparr>)"

text \<open>The handler \<^verbatim>\<open>start_download\<close>.\<close>

definition start_download ::
  "string \<Rightarrow> datetime \<Rightarrow> DownloadRequest \<Rightarrow> server \<Rightarrow> (http_error + initiated) \<times> server" where
  "start_download uuid4 now request sv =
     (if req_url request = [] then (Inl (HTTPException 400 ''URL is required.''), sv)
      else (case initiate_download_task uuid4 now request sv of
              (tid, sv') \<Rightarrow>
                (Inr (DownloadInitiatedResponse ''accepted'' ''Download initiated'' tid
                        (''/ws/status/'' @ tid)), sv')))"

text \<open>A submit request as the route serves it: validation, then the handler.\<close>

definition post_start ::
  "(string \<Rightarrow> bool) \<Rightarrow> string \<Rightarrow> datetime \<Rightarrow> request_body \<Rightarrow> server \<Rightarrow>
   (http_error + initiated) \<times> server" where
  "post_start is_http_url uuid4 now body sv =
     (case validate_request is_http_url body of
        Inl e \<Rightarrow> (Inl e, sv)
      | Inr request \<Rightarrow> start_download uuid4 now request sv)"

subsection \<open>Artifact retrieval\<close>

text \<open>
  The file system as \<^verbatim>\<open>pathlib\<close> shows it: \<^verbatim>\<open>Path.is_file\<close> and the string of
  \<^verbatim>\<open>Path.resolve()\<close>, both on the string of a path.
\<close>

record filesystem =
  is_file :: "string \<Rightarrow> bool"
  resolve :: "string \<Rightarrow> string"

text \<open>\<^verbatim>\<open>s.split('/')\<close> and \<^verbatim>\<open>'/'.join(parts)\<close>.\<close>

fun split_slash :: "string \<Rightarrow> string list" where
  "split_slash [] = [[]]"
| "split_slash (c # cs) =
     (if c = CHR ''/'' then [] # split_slash cs
      else (case split_slash cs of [] \<Rightarrow> [[c]] | w # ws \<Rightarrow> (c # w) # ws))"

fun join_slash :: "string list \<Rightarrow> string" where
  "join_slash [] = []"
| "join_slash [w] = w"
| "join_slash (w # ws) = w @ ''/'' @ join_slash ws"

text \<open>
  \<^verbatim>\<open>posixpath.splitroot\<close>: the root is one slash, or two when the path starts with
  exactly two, or empty for a relative path.
\<close>

definition splitroot :: "string \<Rightarrow> string \<times> string" where
  "splitroot p =
     (if take 1 p \<noteq> ''/'' then ([], p)
      else if take 1 (drop 1 p) \<noteq> ''/'' \<or> take 1 (drop 2 p) = ''/'' then (''/'', drop 1 p)
      else (''//'', drop 2 p))"

text \<open>
  The string of a \<^verbatim>\<open>PurePosixPath\<close>: empty and \<^verbatim>\<open>.\<close> components are dropped
  (\<^verbatim>\<open>..\<close> is kept), and the empty path is written \<^verbatim>\<open>.\<close>.
\<close>

definition pure_path_str :: "string \<Rightarrow> string" where
  "pure_path_str p =
     (case splitroot p of
        (rt, rel) \<Rightarrow>
          (let parts = filter (\<lambda>x. x \<noteq> [] \<and> x \<noteq> ''.'') (split_slash rel)
           in if rt \<noteq> [] then rt @ join_slash parts
              else if parts = [] then ''.''
              else join_slash parts))"

text \<open>
  \<^verbatim>\<open>DOWNLOAD_DIR / filename\<close>: the two are joined as \<^verbatim>\<open>os.path.join\<close> does (an
  absolute right operand replaces the left one) and the result is parsed as a path.
\<close>

definition path_div :: "string \<Rightarrow> string \<Rightarrow> string" where
  "path_div dir name = pure_path_str (os_path_join dir name)"

text \<open>The accesses to the file system, in the order in which a request makes them.\<close>

datatype fs_access = IsFile string | Resolve string | OpenFile string

datatype file_response = FileResponse string string

text \<open>
  \<^verbatim>\<open>get_downloaded_file\<close>: the accesses made and the answer. The returned
  \<^verbatim>\<open>FileResponse\<close> opens the file when the answer is sent.
\<close>

definition get_downloaded_file ::
  "filesystem \<Rightarrow> string \<Rightarrow> string \<Rightarrow> fs_access list \<times> (http_error + file_response)" where
  "get_downloaded_file fs ddir filename =
     (let file_path = path_div ddir filename in
      if \<not> is_file fs file_path then
        ([IsFile file_path], Inl (HTTPException 404 ''File not found.''))
      else
        (let resolved_file_path = resolve fs file_path in
         if \<not> prefix (resolve fs ddir) resolved_file_path then
           ([IsFile file_path, Resolve file_path, Resolve ddir],
            Inl (HTTPException 400 ''Invalid file path.''))
         else
           ([IsFile file_path, Resolve file_path, Resolve ddir, OpenFile file_path],
            Inr (FileResponse file_path filename))))"

subsection \<open>A file system without symbolic links\<close>

text \<open>
  On a file system without symbolic links \<^verbatim>\<open>resolve\<close> of an absolute path is
  lexical: empty and \<^verbatim>\<open>.\<close> components are dropped and \<^verbatim>\<open>..\<close> removes the
  component before it.
\<close>

fun norm_parts :: "string list \<Rightarrow> string list \<Rightarrow> string list" where
  "norm_parts acc [] = rev acc"
| "norm_parts acc (p # ps) =
     (if p = [] \<or> p = ''.'' then norm_parts acc ps
      else if p = ''..'' then norm_parts (tl acc) ps
      else norm_parts (p # acc) ps)"

definition lexical_resolve :: "string \<Rightarrow> string" where
  "lexical_resolve p =
     (case norm_parts [] (split_slash p) of
        [] \<Rightarrow> ''/''
      | ws \<Rightarrow> concat (map (\<lambda>w. CHR ''/'' # w) ws))"

definition plain_fs :: "string list \<Rightarrow> filesystem" where
  "plain_fs files =
     \<lparr>is_file = (\<lambda>p. lexical_resolve p \<in> set files), resolve = lexical_resolve\<rparr>"

text \<open>
  Containment of a resolved path in a directory, by components (what
  \<^verbatim>\<open>Path.is_relative_to\<close> tests).
\<close>

definition path_within :: "string \<Rightarrow> string \<Rightarrow> bool" where
  "path_within dir p = prefix (norm_parts [] (split_slash dir)) (norm_parts [] (split_slash p))"

section \<open>Notions used in the statements\<close>

text \<open>The string that the hook hands to \<^verbatim>\<open>float\<close>: \<^verbatim>\<open>percent_cleaned\<close>.\<close>

definition percent_cleaned :: "pyenv \<Rightarrow> hook_dict \<Rightarrow> string" where
  "percent_cleaned env d = strip (replace_percent (ansi_sub env (get_or_NA (d_percent_str d))))"

text \<open>The values of \<^verbatim>\<open>endTime\<close> of task \<open>tid\<close> in a sequence of registries.\<close>

definition end_times :: "string \<Rightarrow> registry list \<Rightarrow> datetime option list" where
  "end_times tid rs =
     concat (map (\<lambda>r. case r tid of None \<Rightarrow> [] | Some t \<Rightarrow> [endTime t]) rs)"

text \<open>The two statuses a record has while \<^verbatim>\<open>ydl.download\<close> runs.\<close>

definition in_flight :: "string \<Rightarrow> bool" where
  "in_flight st = (st = ''downloading'' \<or> st = ''post-processing'')"

section \<open>Concrete inputs\<close>

text \<open>A record as \<^verbatim>\<open>initiate_download_task\<close> creates it, and the same job after completion.\<close>

definition queued_task :: DownloadTask where
  "queued_task =
     \<lparr>task_id = ''t1'', url = ''https://example.com/video1'', format = Some ''mp4'',
      quality = Some ''best'', browser = None, status = ''queued'',
      progress = \<lparr>percent = 0, eta = ''N/A'', speed = ''N/A'', status_message = ''Queued''\<rparr>,
      filepath = None, error = None, startTime = 1, endTime = None\<rparr>"

definition completed_task :: DownloadTask where
  "completed_task =
     queued_task\<lparr>status := ''completed'', filepath := Some ''Song (abc).mp4'', endTime := Some 5\<rparr>"

definition registry_of :: "DownloadTask \<Rightarrow> registry" where
  "registry_of t = Map.empty(task_id t \<mapsto> t)"

definition downloading_task :: DownloadTask where
  "downloading_task = queued_task\<lparr>status := ''downloading''\<rparr>"

definition example_request :: DownloadRequest where
  "example_request =
     \<lparr>req_url = ''https://example.com/video1'', req_format = Some ''mp4'',
      req_quality = Some ''best'', browserForCookies = None, proxy = None\<rparr>"

definition DOWNLOAD_DIR :: string where
  "DOWNLOAD_DIR = ''/srv/app/downloads''"

text \<open>
  An environment without ANSI escapes in the strings, with \<^verbatim>\<open>float\<close> given on the two
  strings used below, and with no file on disk.
\<close>

definition example_float :: "string \<Rightarrow> exn + real" where
  "example_float s =
     (if s = ''150.0'' then Inr 150
      else if s = ''50.0'' then Inr 50
      else Inl (OtherException ''could not convert string to float''))"

definition example_env :: pyenv where
  "example_env = \<lparr>ansi_sub = (\<lambda>s. s), float_of = example_float, path_exists = (\<lambda>p. False)\<rparr>"

text \<open>Two hook calls: a progress report of 150 percent, and the end of the transfer.\<close>

definition downloading_dict :: hook_dict where
  "downloading_dict =
     \<lparr>d_status = Some ''downloading'', d_percent_str = Some ''150.0%'',
      d_eta_str = Some ''00:10'', d_speed_str = Some ''1MiB/s'',
      d_filename = Some ''Song (abc).mp4'', d_filepath = None,
      d_requested_downloads = None\<rparr>"

definition finished_dict :: hook_dict where
  "finished_dict =
     \<lparr>d_status = Some ''finished'', d_percent_str = None, d_eta_str = None, d_speed_str = None,
      d_filename = Some ''/srv/app/downloads/Song (abc).f137.mp4'',
      d_filepath = Some ''/srv/app/downloads/Song (abc).mp4'',
      d_requested_downloads = None\<rparr>"

text \<open>
  Four executions of the collaborator: a successful one with both hook calls; one that
  succeeds without telling the final path, whose predicted file is not on disk; one
  that raises an \<^verbatim>\<open>Exception\<close> whose message is empty (as \<^verbatim>\<open>AssertionError()\<close> has
  it); and one interrupted by \<^verbatim>\<open>asyncio.CancelledError\<close>.
\<close>

definition completed_run :: collab_run where
  "completed_run =
     \<lparr>construct_error = None, hook_calls = [(3, downloading_dict), (4, finished_dict)],
      download_error = None, predicted = Inr [], end_time = 7\<rparr>"

definition no_path_run :: collab_run where
  "no_path_run =
     \<lparr>construct_error = None, hook_calls = [], download_error = None,
      predicted = Inr ''/srv/app/downloads/Song (abc).mp4'', end_time = 7\<rparr>"

definition silent_failure_run :: collab_run where
  "silent_failure_run =
     \<lparr>construct_error = None, hook_calls = [], download_error = Some (OtherException []),
      predicted = Inr [], end_time = 7\<rparr>"

definition cancelled_run :: collab_run where
  "cancelled_run =
     \<lparr>construct_error = None, hook_calls = [], download_error = Some (NonException []),
      predicted = Inr [], end_time = 7\<rparr>"

definition constant_ydl :: "collab_run \<Rightarrow> collaborator" where
  "constant_ydl run opts u = run"

text \<open>
  A server without tasks and one with one task, a submit body with an empty URL, a
  lenient URL check.
\<close>

definition empty_server :: server where
  "empty_server = \<lparr>download_tasks = Map.empty, scheduled = []\<rparr>"

definition one_task_server :: server where
  "one_task_server = \<lparr>download_tasks = registry_of queued_task, scheduled = []\<rparr>"

definition empty_url_body :: request_body where
  "empty_url_body =
     \<lparr>body_url = Some [], body_format = None, body_quality = None,
      body_browserForCookies = None, body_proxy = None\<rparr>"

definition accept_all :: "string \<Rightarrow> bool" where
  "accept_all u = True"

text \<open>A server whose only task is completed.\<close>

definition completed_server :: server where
  "completed_server = \<lparr>download_tasks = registry_of completed_task, scheduled = []\<rparr>"


definition sibling_fs :: filesystem where
  "sibling_fs = plain_fs [''/srv/app/downloads-evil/secret.txt'']"

section \<open>Basic facts\<close>

lemma basename_no_sep: "CHR ''/'' \<notin> set (basename p)"
  unfolding basename_def using set_takeWhileD by fastforce

lemma update_progress_Some:
  "tasks tid = Some task \<Longrightarrow>
   update_progress tid pc e sp msg tasks tid =
     Some (task\<lparr>progress := \<lparr>percent = pc, eta = e, speed = sp, status_message = msg\<rparr>\<rparr>)"
  by (simp add: update_progress_def)

lemma update_progress_other:
  "k \<noteq> tid \<Longrightarrow> update_progress tid pc e sp msg tasks k = tasks k"
  by (simp add: update_progress_def split: option.splits)

lemma set_status_Some:
  "tasks tid = Some task \<Longrightarrow>
   set_status tid st err fp now tasks tid =
     Some (task\<lparr>status := st, error := err,
       filepath := (if truthy fp then Some (basename (the fp)) else None),
       endTime := Some now\<rparr>)"
  by (simp add: set_status_def)

lemma set_status_other:
  "k \<noteq> tid \<Longrightarrow> set_status tid st err fp now tasks k = tasks k"
  by (simp add: set_status_def split: option.splits)

section \<open>Statuses along a run of the hook\<close>

lemma rank_values:
  "rank ''queued'' = 0" "rank ''downloading'' = 1" "rank ''post-processing'' = 2"
  "rank ''completed'' = 3" "rank ''failed'' = 3"
  by (simp_all add: rank_def)

lemma known_values:
  "known_status ''queued''" "known_status ''downloading''" "known_status ''post-processing''"
  "known_status ''completed''" "known_status ''failed''"
  by (simp_all add: known_status_def)

lemma statuses_Nil: "statuses tid [] = []"
  by (simp add: statuses_def)

lemma statuses_Cons: "r tid = Some t \<Longrightarrow> statuses tid (r # rs) = status t # statuses tid rs"
  by (simp add: statuses_def)

lemma statuses_append: "statuses tid (rs @ rs') = statuses tid rs @ statuses tid rs'"
  by (simp add: statuses_def)

lemma in_flight_rank: "in_flight st \<Longrightarrow> 1 \<le> rank st \<and> rank st \<le> 2"
  by (auto simp: in_flight_def rank_values)

lemma in_flight_known: "in_flight st \<Longrightarrow> known_status st"
  by (auto simp: in_flight_def known_values)

lemma progress_hook_cases:
  assumes "progress_hook env tid now d (fin, tasks) = (r, (fin', tasks'))"
  shows "tasks' = tasks \<or> (\<exists>pc e sp msg. tasks' = update_progress tid pc e sp msg tasks)
         \<or> tasks' = set_status tid ''post-processing'' None None now tasks"
  using assms
  by (auto simp: progress_hook_def Let_def split: option.splits if_splits sum.splits)

lemma progress_hook_step:
  assumes "progress_hook env tid now d (fin, tasks) = (r, (fin', tasks'))"
      and "tasks tid = Some t"
  shows "\<exists>t'. tasks' tid = Some t' \<and> (status t' = status t \<or> status t' = ''post-processing'')"
  using progress_hook_cases [OF assms(1)] assms(2)
  by (auto simp: update_progress_Some set_status_Some)

lemma run_hooks_chain:
  assumes "run_hooks env tid ds (fin, tasks) = (r, (fin', tasks'), obs)"
      and "tasks tid = Some t" and "in_flight (status t)"
  shows "\<exists>t'. tasks' tid = Some t' \<and> in_flight (status t') \<and>
              (\<forall>s \<in> set (statuses tid obs). in_flight s) \<and>
              sorted (map rank (status t # statuses tid obs @ [status t']))"
  using assms
proof (induction ds arbitrary: fin tasks t obs)
  case Nil
  then show ?case by (simp add: statuses_Nil)
next
  case (Cons c ds)
  obtain now d where c: "c = (now, d)" by (cases c)
  obtain r1 fin1 tasks1 where h: "progress_hook env tid now d (fin, tasks) = (r1, (fin1, tasks1))"
    by (metis prod.exhaust)
  from progress_hook_step [OF h Cons.prems(2)] obtain t1 where
    t1: "tasks1 tid = Some t1" "status t1 = status t \<or> status t1 = ''post-processing''"
    by blast
  with Cons.prems(3) have f1: "in_flight (status t1)" and le: "rank (status t) \<le> rank (status t1)"
    by (auto simp: in_flight_def rank_values)
  show ?case
  proof (cases r1)
    case (Some e)
    with Cons.prems(1) c h have "tasks' = tasks1" "obs = []"
      by auto
    with t1 f1 le show ?thesis
      by (simp add: statuses_Nil)
  next
    case None
    obtain r2 s2 obs2 where rec: "run_hooks env tid ds (fin1, tasks1) = (r2, s2, obs2)"
      by (metis prod.exhaust)
    with Cons.prems(1) c h None have eq: "r = r2" "s2 = (fin', tasks')" "obs = tasks1 # obs2"
      by auto
    have rec': "run_hooks env tid ds (fin1, tasks1) = (r, (fin', tasks'), obs2)"
      using rec eq by simp
    from Cons.IH [OF rec' t1(1) f1] obtain t' where
      t': "tasks' tid = Some t'" "in_flight (status t')"
          "\<forall>s \<in> set (statuses tid obs2). in_flight s"
          "sorted (map rank (status t1 # statuses tid obs2 @ [status t']))"
      by blast
    have st: "statuses tid obs = status t1 # statuses tid obs2"
      using eq(3) t1(1) by (simp add: statuses_Cons)
    from t' f1 le st show ?thesis
      by auto
  qed
qed

section \<open>The body of the try statement and the handlers\<close>

lemma download_body_unfold:
  assumes "construct_error run = None"
      and "run_hooks env tid (hook_calls run) (None, tasks) = (r, (fin1, tasks1), obs1)"
  shows "download_body env ddir run tid tasks =
           (case r of
              Some e \<Rightarrow> (Some e, tasks1, obs1)
            | None \<Rightarrow>
                (case download_error run of
                   Some e \<Rightarrow> (Some e, tasks1, obs1)
                 | None \<Rightarrow>
                     (case resolve_final_path env ddir run fin1 of
                        Inl e \<Rightarrow> (Some e, tasks1, obs1)
                      | Inr p \<Rightarrow>
                          (None, set_status tid ''completed'' None (Some p) (end_time run) tasks1,
                           obs1 @ [set_status tid ''completed'' None (Some p) (end_time run) tasks1]))))"
  using assms by (simp add: download_body_def Let_def split: option.splits sum.splits)

lemma download_body_shape:
  assumes "download_body env ddir run tid tasks = (exc, tasks', obs)"
      and "tasks tid = Some t" and "in_flight (status t)"
  shows "\<exists>t'. tasks' tid = Some t' \<and>
              (\<forall>s \<in> set (statuses tid obs). known_status s) \<and>
              sorted (map rank (status t # statuses tid obs @ [status t'])) \<and>
              (case exc of
                 None \<Rightarrow> status t' = ''completed'' \<and> error t' = None \<and>
                           endTime t' = Some (end_time run)
               | Some e \<Rightarrow> in_flight (status t'))"
proof (cases "construct_error run")
  case (Some e)
  with assms(1) have "exc = Some e" "tasks' = tasks" "obs = []"
    by (auto simp: download_body_def)
  with assms(2,3) show ?thesis
    by (simp add: statuses_Nil)
next
  case None
  obtain r fin1 tasks1 obs1 where
    rh: "run_hooks env tid (hook_calls run) (None, tasks) = (r, (fin1, tasks1), obs1)"
    by (metis prod.exhaust)
  from run_hooks_chain [OF rh assms(2,3)] obtain t1 where
    t1: "tasks1 tid = Some t1" "in_flight (status t1)"
        "\<forall>s \<in> set (statuses tid obs1). in_flight s"
        "sorted (map rank (status t # statuses tid obs1 @ [status t1]))"
    by blast
  have kn: "\<forall>s \<in> set (statuses tid obs1). known_status s"
    using t1(3) in_flight_known by blast
  show ?thesis
  proof (cases "r = None \<and> download_error run = None \<and>
                (\<exists>p. resolve_final_path env ddir run fin1 = Inr p)")
    case False
    note u = download_body_unfold [OF None rh, of ddir]
    from False consider
        (hook) e where "r = Some e"
      | (download) e where "r = None" "download_error run = Some e"
      | (path) e where "r = None" "download_error run = None"
          "resolve_final_path env ddir run fin1 = Inl e"
      by (cases r; cases "download_error run"; cases "resolve_final_path env ddir run fin1") auto
    then have "tasks' = tasks1 \<and> obs = obs1 \<and> exc \<noteq> None"
    proof cases
      case hook
      with u assms(1) show ?thesis by simp
    next
      case download
      with u assms(1) show ?thesis by simp
    next
      case path
      with u assms(1) show ?thesis by simp
    qed
    then have "tasks' = tasks1" "obs = obs1" "exc \<noteq> None"
      by simp_all
    with t1 kn show ?thesis
      by auto
  next
    case True
    then obtain p where p: "resolve_final_path env ddir run fin1 = Inr p"
      by blast
    define fin where "fin = set_status tid ''completed'' None (Some p) (end_time run) tasks1"
    from assms(1) download_body_unfold [OF None rh, of ddir] True p
    have eq: "exc = None" "tasks' = fin" "obs = obs1 @ [fin]"
      by (auto simp: fin_def)
    obtain t' where t': "fin tid = Some t'" "status t' = ''completed''" "error t' = None"
        "endTime t' = Some (end_time run)"
      using t1(1) by (simp add: fin_def set_status_Some)
    have st: "statuses tid obs = statuses tid obs1 @ [''completed'']"
      using eq(3) t'(1,2) by (simp add: statuses_append statuses_Cons statuses_Nil)
    have le: "\<forall>s \<in> set (statuses tid obs1). rank s \<le> 3"
      using t1(3) in_flight_rank by fastforce
    have "rank (status t) \<le> 3"
      using assms(3) in_flight_rank by fastforce
    with t1(4) le have "sorted (map rank (status t # statuses tid obs @ [status t']))"
      by (auto simp: st t'(2) rank_values sorted_append)
    with eq t' kn st show ?thesis
      by (auto simp: known_values)
  qed
qed

lemma perform_download_outcome:
  assumes "tasks tid = Some task"
      and "download_body env ddir (ydl (build_ydl_opts ddir ffmpeg_env request) (req_url request)) tid
             (tasks(tid \<mapsto> task\<lparr>status := ''downloading''\<rparr>)) = (exc, tasks', obs)"
  shows "perform_download env ddir ffmpeg_env ydl tid request tasks =
           (case exc of
              None \<Rightarrow> (None, tasks(tid \<mapsto> task\<lparr>status := ''downloading''\<rparr>) # obs)
            | Some e \<Rightarrow>
                if is_Exception e then
                  (None, tasks(tid \<mapsto> task\<lparr>status := ''downloading''\<rparr>) # obs @
                     [set_status tid ''failed'' (Some (str_exn e)) None
                        (end_time (ydl (build_ydl_opts ddir ffmpeg_env request) (req_url request)))
                        tasks'])
                else (Some e, tasks(tid \<mapsto> task\<lparr>status := ''downloading''\<rparr>) # obs))"
  using assms
  by (simp add: perform_download_def Let_def split: option.splits exn.splits)

text \<open>
  When the hook captured nothing and the fallback gives no existing file, or fails with
  an instance of \<^verbatim>\<open>Exception\<close>, the body raises the fixed, non-empty message.
\<close>

lemma unresolved_path_raises:
  assumes "case predicted run of
             Inl e \<Rightarrow> is_Exception e
           | Inr f \<Rightarrow> \<not> path_exists env (os_path_join ddir f)"
  shows "resolve_final_path env ddir run None = Inl (OtherException could_not_determine) \<and>
         str_exn (OtherException could_not_determine) \<noteq> []"
  using assms
  by (cases "predicted run")
     (simp_all add: resolve_final_path_def Let_def could_not_determine_def)

section \<open>Evaluation of the concrete inputs\<close>

lemma progress_hook_downloading:
  assumes "d_status d = Some ''downloading''" and "tasks tid = Some task"
      and "progress_hook env tid now d (fin, tasks) = (None, (fin', tasks'))"
  shows "\<exists>task'. tasks' tid = Some task' \<and> status task' = status task \<and>
           (if percent_cleaned env d \<noteq> ''N/A'' \<and> percent_cleaned env d \<noteq> []
            then float_of env (percent_cleaned env d) = Inr (percent (progress task'))
            else percent (progress task') = 0)"
  using assms
  by (auto simp: progress_hook_def percent_cleaned_def Let_def update_progress_Some
           split: sum.splits if_splits)

lemma percent_cleaned_example: "percent_cleaned example_env downloading_dict = ''150.0''"
  by (simp add: percent_cleaned_def example_env_def downloading_dict_def get_or_NA_def
        replace_percent_def strip_def is_space_def)

lemma progress_hook_example:
  "progress_hook example_env ''t1'' 4 downloading_dict (None, registry_of downloading_task)
   = (None, None,
      update_progress ''t1'' 150 ''00:10'' ''1MiB/s'' ''Downloading: Song (abc).mp4 150.0%''
        (registry_of downloading_task))"
  by (simp add: progress_hook_def Let_def example_env_def downloading_dict_def get_or_NA_def
        replace_percent_def strip_def is_space_def example_float_def)

lemma resolve_sibling: "lexical_resolve ''/srv/app/downloads/../downloads-evil/secret.txt'' = ''/srv/app/downloads-evil/secret.txt''"
  by (simp add: lexical_resolve_def)



lemma path_div_sibling:
  "path_div DOWNLOAD_DIR ''../downloads-evil/secret.txt''
   = ''/srv/app/downloads/../downloads-evil/secret.txt''"
  by (simp add: path_div_def os_path_join_def pure_path_str_def splitroot_def DOWNLOAD_DIR_def)


lemma resolve_dir: "lexical_resolve ''/srv/app/downloads'' = ''/srv/app/downloads''"
  by (simp add: lexical_resolve_def)

lemmas example_defs =
  example_request_def DOWNLOAD_DIR_def constant_ydl_def finished_dict_def completed_run_def
  no_path_run_def silent_failure_run_def cancelled_run_def example_env_def downloading_dict_def
  example_float_def registry_of_def queued_task_def downloading_task_def

lemmas model_defs =
  perform_download_def download_body_def resolve_final_path_def progress_hook_def
  set_status_def update_progress_def Let_def get_or_NA_def replace_percent_def strip_def
  is_space_def os_path_join_def final_registry_def statuses_def end_times_def key_error_def

lemma no_path_body:
  "download_body example_env DOWNLOAD_DIR no_path_run ''t1''
     ((registry_of queued_task)(''t1'' \<mapsto> queued_task\<lparr>status := ''downloading''\<rparr>))
   = (Some (OtherException could_not_determine),
      (registry_of queued_task)(''t1'' \<mapsto> queued_task\<lparr>status := ''downloading''\<rparr>), [])"
  by (simp add: example_defs download_body_def resolve_final_path_def Let_def os_path_join_def)

section \<open>Terminal records and the two reporter methods\<close>

text \<open>
  Claim C1, as the code has it. \<^verbatim>\<open>update_progress\<close> leaves status, error, filepath
  and endTime of the record as they are, whatever the status (so also on a terminal
  record). \<^verbatim>\<open>set_status\<close> has no guard: on every call it overwrites the four fields
  with its arguments and the clock reading.
\<close>

theorem update_progress_keeps_terminal_fields:
  assumes "tasks tid = Some task"
  shows "(\<exists>task'. update_progress tid pc e sp msg tasks tid = Some task' \<and>
            status task' = status task \<and> error task' = error task \<and>
            filepath task' = filepath task \<and> endTime task' = endTime task) \<and>
         set_status tid st err fp now tasks tid =
            Some (task\<lparr>status := st, error := err,
                    filepath := (if truthy fp then Some (basename (the fp)) else None),
                    endTime := Some now\<rparr>)"
  using assms by (simp add: update_progress_Some set_status_Some)

theorem update_progress_keeps_terminal_fields_witness:
  "registry_of completed_task ''t1'' = Some completed_task \<and>
   terminal (status completed_task) \<and>
   map_option status
     (update_progress ''t1'' 50 ''00:10'' ''1MiB/s'' ''m'' (registry_of completed_task) ''t1'')
     = Some ''completed'' \<and>
   map_option endTime
     (update_progress ''t1'' 50 ''00:10'' ''1MiB/s'' ''m'' (registry_of completed_task) ''t1'')
     = Some (Some 5) \<and>
   map_option status
     (set_status ''t1'' ''failed'' (Some ''boom'') None 9 (registry_of completed_task) ''t1'')
     = Some ''failed''"
proof -
  have h: "registry_of completed_task ''t1'' = Some completed_task"
    by (simp add: registry_of_def completed_task_def queued_task_def)
  show ?thesis
    using h update_progress_keeps_terminal_fields
        [where tasks = "registry_of completed_task" and tid = "''t1''" and task = completed_task
           and pc = 50 and e = "''00:10''" and sp = "''1MiB/s''" and msg = "''m''"
           and st = "''failed''" and err = "Some ''boom''" and fp = None and now = 9]
    by (auto simp: completed_task_def queued_task_def terminal_def)
qed

text \<open>
  Claim C1 as stated fails for \<^verbatim>\<open>set_status\<close>: a failure report on a completed record
  replaces its status, error, filepath and endTime.
\<close>

theorem set_status_overwrites_terminal_record:
  "terminal (status completed_task) \<and>
   set_status ''t1'' ''failed'' (Some ''boom'') None 9 (registry_of completed_task) ''t1''
     = Some (completed_task\<lparr>status := ''failed'', error := Some ''boom'',
                            filepath := None, endTime := Some 9\<rparr>) \<and>
   completed_task\<lparr>status := ''failed'', error := Some ''boom'', filepath := None, endTime := Some 9\<rparr>
     \<noteq> completed_task"
  by (simp add: set_status_def registry_of_def completed_task_def queued_task_def terminal_def)

section \<open>Failures inside the background work unit\<close>

text \<open>
  Claim C2, as the code has it. Every instance of \<^verbatim>\<open>Exception\<close> that leaves the body
  of the \<^verbatim>\<open>try\<close> statement of \<^verbatim>\<open>perform_download\<close> (raised by the construction of
  the collaborator, by the hook, by \<^verbatim>\<open>ydl.download\<close>, or because no strategy gave a
  final path) is caught: nothing propagates, and the record ends with status
  \<^verbatim>\<open>failed\<close> and with \<^verbatim>\<open>str(e)\<close> as its error.
\<close>

theorem perform_download_reports_failure:
  assumes "tasks tid = Some task"
      and "download_body env ddir (ydl (build_ydl_opts ddir ffmpeg_env request) (req_url request)) tid
             (tasks(tid \<mapsto> task\<lparr>status := ''downloading''\<rparr>)) = (Some e, tasks', obs)"
      and "is_Exception e"
  shows "fst (perform_download env ddir ffmpeg_env ydl tid request tasks) = None \<and>
         (\<exists>t. final_registry tasks (perform_download env ddir ffmpeg_env ydl tid request tasks) tid
                 = Some t \<and>
              status t = ''failed'' \<and> error t = Some (str_exn e) \<and> filepath t = None)"
proof -
  let ?started = "tasks(tid \<mapsto> task\<lparr>status := ''downloading''\<rparr>)"
  have s: "?started tid = Some (task\<lparr>status := ''downloading''\<rparr>)"
    by simp
  have f: "in_flight (status (task\<lparr>status := ''downloading''\<rparr>))"
    by (simp add: in_flight_def)
  from download_body_shape [OF assms(2) s f] obtain t' where t': "tasks' tid = Some t'"
    by blast
  from perform_download_outcome [where ydl = ydl and exc = "Some e", OF assms(1,2)] assms(3) t'
  show ?thesis
    by (simp add: final_registry_def set_status_Some)
qed

text \<open>
  The unresolvable final path: the collaborator succeeds, the hook was never called and
  the predicted file is not on disk. The record fails with the fixed message.
\<close>

theorem perform_download_reports_failure_witness:
  "registry_of queued_task ''t1'' = Some queued_task \<and>
   is_Exception (OtherException could_not_determine) \<and>
   fst (perform_download example_env DOWNLOAD_DIR None (constant_ydl no_path_run) ''t1''
          example_request (registry_of queued_task)) = None \<and>
   map_option status
     (final_registry (registry_of queued_task)
        (perform_download example_env DOWNLOAD_DIR None (constant_ydl no_path_run) ''t1''
           example_request (registry_of queued_task)) ''t1'') = Some ''failed'' \<and>
   map_option error
     (final_registry (registry_of queued_task)
        (perform_download example_env DOWNLOAD_DIR None (constant_ydl no_path_run) ''t1''
           example_request (registry_of queued_task)) ''t1'')
     = Some (Some ''Could not determine final downloaded file path after completion.'')"
proof -
  have h: "registry_of queued_task ''t1'' = Some queued_task"
    by (simp add: registry_of_def queued_task_def)
  have b: "download_body example_env DOWNLOAD_DIR
             (constant_ydl no_path_run (build_ydl_opts DOWNLOAD_DIR None example_request)
                (req_url example_request)) ''t1''
             ((registry_of queued_task)(''t1'' \<mapsto> queued_task\<lparr>status := ''downloading''\<rparr>))
           = (Some (OtherException could_not_determine),
              (registry_of queued_task)(''t1'' \<mapsto> queued_task\<lparr>status := ''downloading''\<rparr>), [])"
    using no_path_body by (simp add: constant_ydl_def)
  have e: "is_Exception (OtherException could_not_determine)"
    by simp
  from perform_download_reports_failure [where ydl = "constant_ydl no_path_run", OF h b e] h
  show ?thesis
    by (auto simp: could_not_determine_def)
qed

text \<open>
  Claim C2 as stated fails in two ways. The stored message is \<^verbatim>\<open>str(e)\<close>, which is
  empty for an exception raised without arguments; and an exception that is not an
  instance of \<^verbatim>\<open>Exception\<close> passes both handlers and leaves the record in
  \<^verbatim>\<open>downloading\<close>.
\<close>

theorem perform_download_empty_message_and_propagation:
  "map_option error
     (final_registry (registry_of queued_task)
        (perform_download example_env DOWNLOAD_DIR None (constant_ydl silent_failure_run) ''t1''
           example_request (registry_of queued_task)) ''t1'') = Some (Some []) \<and>
   perform_download example_env DOWNLOAD_DIR None (constant_ydl cancelled_run) ''t1''
     example_request (registry_of queued_task)
     = (Some (NonException []), [registry_of downloading_task])"
  by (simp add: example_defs model_defs)

section \<open>Artifact retrieval\<close>




section \<open>Task creation\<close>

text \<open>
  Claim C4, as the code has it. \<^verbatim>\<open>initiate_download_task\<close> returns the identifier
  that \<^verbatim>\<open>uuid4\<close> yields and stores under it a record with status \<^verbatim>\<open>queued\<close> and
  percent zero, in place of whatever the registry held under that identifier: the keys
  of the registry are the old ones and the identifier, every other record is as it was,
  one background unit is scheduled, and \<^verbatim>\<open>get_download_status\<close> on the new registry
  returns the new record. The identifier is new to the registry exactly when the value
  of \<^verbatim>\<open>uuid4\<close> is; the code does not check.
\<close>

theorem initiate_creates_queued_record:
  assumes "initiate_download_task uid now request sv = (tid, sv')"
  shows "tid = uid \<and>
         (tid \<notin> dom (download_tasks sv)) = (uid \<notin> dom (download_tasks sv)) \<and>
         dom (download_tasks sv') = insert tid (dom (download_tasks sv)) \<and>
         (\<forall>k. k \<noteq> tid \<longrightarrow> download_tasks sv' k = download_tasks sv k) \<and>
         (\<exists>t. get_download_status tid (download_tasks sv') = Some t \<and>
              task_id t = tid \<and> status t = ''queued'' \<and> percent (progress t) = 0 \<and>
              url t = req_url request) \<and>
         scheduled sv' = scheduled sv @ [(tid, request)]"
  using assms by (auto simp: initiate_download_task_def get_download_status_def)

theorem initiate_creates_queued_record_witness:
  "''id-1'' \<notin> dom (download_tasks one_task_server) \<and>
   fst (initiate_download_task ''id-1'' 3 example_request one_task_server) = ''id-1'' \<and>
   ''t1'' \<noteq> ''id-1'' \<and>
   download_tasks (snd (initiate_download_task ''id-1'' 3 example_request one_task_server)) ''t1''
     = Some queued_task \<and>
   map_option status
     (get_download_status ''id-1''
        (download_tasks (snd (initiate_download_task ''id-1'' 3 example_request one_task_server))))
     = Some ''queued'' \<and>
   map_option (percent \<circ> progress)
     (get_download_status ''id-1''
        (download_tasks (snd (initiate_download_task ''id-1'' 3 example_request one_task_server))))
     = Some 0"
proof -
  have h: "''id-1'' \<notin> dom (download_tasks one_task_server)"
    by (simp add: one_task_server_def registry_of_def queued_task_def)
  have r: "initiate_download_task ''id-1'' 3 example_request one_task_server
           = (fst (initiate_download_task ''id-1'' 3 example_request one_task_server),
              snd (initiate_download_task ''id-1'' 3 example_request one_task_server))"
    by simp
  from initiate_creates_queued_record [OF r] h show ?thesis
    by (auto simp: one_task_server_def registry_of_def queued_task_def)
qed

text \<open>
  Claim C4 as stated fails when \<^verbatim>\<open>uuid4\<close> yields an identifier that is already a key:
  the returned identifier is not new, no key is added, and the completed record stored
  under it is replaced by the queued one.
\<close>

theorem initiate_overwrites_on_collision:
  "''t1'' \<in> dom (download_tasks completed_server) \<and>
   fst (initiate_download_task ''t1'' 3 example_request completed_server) = ''t1'' \<and>
   dom (download_tasks (snd (initiate_download_task ''t1'' 3 example_request completed_server)))
     = dom (download_tasks completed_server) \<and>
   map_option status (download_tasks completed_server ''t1'') = Some ''completed'' \<and>
   map_option status
     (download_tasks (snd (initiate_download_task ''t1'' 3 example_request completed_server)) ''t1'')
     = Some ''queued''"
  by (auto simp: initiate_download_task_def completed_server_def registry_of_def
        completed_task_def queued_task_def)

section \<open>Writes of endTime\<close>

text \<open>
  Where \<^verbatim>\<open>endTime\<close> is written. Every call of \<^verbatim>\<open>set_status\<close> writes it, whatever
  the status it reports; \<^verbatim>\<open>update_progress\<close> never does. When \<^verbatim>\<open>perform_download\<close>
  ends without a propagating exception, the record is terminal and its \<^verbatim>\<open>endTime\<close>
  is the clock reading of the terminal report.
\<close>

lemma endTime_writes:
  assumes "tasks tid = Some task"
  shows "map_option endTime (set_status tid st err fp now tasks tid) = Some (Some now) \<and>
         map_option endTime (update_progress tid pc e sp msg tasks tid) = Some (endTime task) \<and>
         (fst (perform_download env ddir ffmpeg_env ydl tid request tasks) = None \<longrightarrow>
          (\<exists>t. final_registry tasks (perform_download env ddir ffmpeg_env ydl tid request tasks) tid
                  = Some t \<and>
               terminal (status t) \<and>
               endTime t = Some (end_time (ydl (build_ydl_opts ddir ffmpeg_env request)
                                            (req_url request)))))"
proof -
  let ?started = "tasks(tid \<mapsto> task\<lparr>status := ''downloading''\<rparr>)"
  let ?run = "ydl (build_ydl_opts ddir ffmpeg_env request) (req_url request)"
  obtain exc tasks' obs where db: "download_body env ddir ?run tid ?started = (exc, tasks', obs)"
    by (metis prod.exhaust)
  have s: "?started tid = Some (task\<lparr>status := ''downloading''\<rparr>)"
    by simp
  have f: "in_flight (status (task\<lparr>status := ''downloading''\<rparr>))"
    by (simp add: in_flight_def)
  from download_body_shape [OF db s f] obtain t' where
    t': "tasks' tid = Some t'"
        "case exc of None \<Rightarrow> status t' = ''completed'' \<and> error t' = None \<and>
                               endTime t' = Some (end_time ?run)
         | Some e \<Rightarrow> in_flight (status t')"
    by auto
  note out = perform_download_outcome [where ydl = ydl, OF assms db]
  have third: "fst (perform_download env ddir ffmpeg_env ydl tid request tasks) = None \<longrightarrow>
          (\<exists>t. final_registry tasks (perform_download env ddir ffmpeg_env ydl tid request tasks) tid
                  = Some t \<and> terminal (status t) \<and> endTime t = Some (end_time ?run))"
  proof (cases exc)
    case None
    with db have "obs \<noteq> [] \<and> last obs = tasks'"
      by (auto simp: download_body_def Let_def split: option.splits sum.splits prod.splits)
    with None out t' show ?thesis
      by (simp add: final_registry_def terminal_def)
  next
    case (Some e)
    with out t'(1) show ?thesis
      by (simp add: final_registry_def terminal_def set_status_Some)
  qed
  from assms third show ?thesis
    by (simp add: set_status_Some update_progress_Some)
qed

lemma endTime_writes_example:
  "registry_of queued_task ''t1'' = Some queued_task \<and>
   \<not> terminal ''post-processing'' \<and>
   map_option endTime
     (set_status ''t1'' ''post-processing'' None None 4 (registry_of queued_task) ''t1'')
     = Some (Some 4) \<and>
   map_option endTime
     (update_progress ''t1'' 50 ''00:10'' ''1MiB/s'' ''m'' (registry_of queued_task) ''t1'')
     = Some None \<and>
   fst (perform_download example_env DOWNLOAD_DIR None (constant_ydl completed_run) ''t1''
          example_request (registry_of queued_task)) = None \<and>
   map_option endTime
     (final_registry (registry_of queued_task)
        (perform_download example_env DOWNLOAD_DIR None (constant_ydl completed_run) ''t1''
           example_request (registry_of queued_task)) ''t1'') = Some (Some 7) \<and>
   map_option status
     (final_registry (registry_of queued_task)
        (perform_download example_env DOWNLOAD_DIR None (constant_ydl completed_run) ''t1''
           example_request (registry_of queued_task)) ''t1'') = Some ''completed''"
proof -
  have h: "registry_of queued_task ''t1'' = Some queued_task"
    by (simp add: registry_of_def queued_task_def)
  have n: "fst (perform_download example_env DOWNLOAD_DIR None (constant_ydl completed_run) ''t1''
          example_request (registry_of queued_task)) = None"
    by (simp add: example_defs model_defs)
  have s: "map_option status
     (final_registry (registry_of queued_task)
        (perform_download example_env DOWNLOAD_DIR None (constant_ydl completed_run) ''t1''
           example_request (registry_of queued_task)) ''t1'') = Some ''completed''"
    by (simp add: example_defs model_defs)
  have e: "end_time (constant_ydl completed_run
             (build_ydl_opts DOWNLOAD_DIR None example_request) (req_url example_request)) = 7"
    by (simp add: constant_ydl_def completed_run_def)
  from endTime_writes [where tasks = "registry_of queued_task"
      and tid = "''t1''" and task = queued_task and st = "''post-processing''"
      and err = None and fp = None and now = 4 and pc = 50 and e = "''00:10''"
      and sp = "''1MiB/s''" and msg = "''m''" and env = example_env and ddir = DOWNLOAD_DIR
      and ffmpeg_env = None and ydl = "constant_ydl completed_run"
      and request = example_request] h n s e
  show ?thesis
    by (auto simp: terminal_def queued_task_def)
qed

text \<open>
  Claim C5: \<^verbatim>\<open>endTime\<close> is written exactly once, on the transition into
  \<^verbatim>\<open>completed\<close> or \<^verbatim>\<open>failed\<close>. The code breaks it whenever the collaborator
  reports the end of the transfer: the hook reports the phase through \<^verbatim>\<open>set_status\<close>,
  which stamps \<^verbatim>\<open>endTime\<close>, while the record is still \<^verbatim>\<open>post-processing\<close>; the
  terminal report stamps it again. (The other non-terminal transition, to
  \<^verbatim>\<open>downloading\<close>, assigns the status directly and leaves \<^verbatim>\<open>endTime\<close> alone.)
  In the run below the successive values of \<^verbatim>\<open>endTime\<close> are absent, absent, 4 and 7.
\<close>

theorem endTime_written_twice:
  "fst (perform_download example_env DOWNLOAD_DIR None (constant_ydl completed_run) ''t1''
     example_request (registry_of queued_task)) = None \<and>
   statuses ''t1'' (snd (perform_download example_env DOWNLOAD_DIR None (constant_ydl completed_run) ''t1''
     example_request (registry_of queued_task)))
     = [''downloading'', ''downloading'', ''post-processing'', ''completed''] \<and>
   end_times ''t1'' (snd (perform_download example_env DOWNLOAD_DIR None (constant_ydl completed_run) ''t1''
     example_request (registry_of queued_task)))
     = [None, None, Some 4, Some 7]"
  by (simp add: example_defs model_defs)

section \<open>The sequence of statuses\<close>

text \<open>
  Claim C6. For a record created as \<^verbatim>\<open>queued\<close>, the statuses that
  \<^verbatim>\<open>perform_download\<close> writes, in order and starting with the initial one, are among
  \<^verbatim>\<open>queued\<close>, \<^verbatim>\<open>downloading\<close>, \<^verbatim>\<open>post-processing\<close>, \<^verbatim>\<open>completed\<close> and
  \<^verbatim>\<open>failed\<close> (the code's strings for the five statuses), and their ranks never
  decrease.
\<close>

theorem status_never_regresses:
  assumes "tasks tid = Some task" and "status task = ''queued''"
  shows "sorted (map rank (statuses tid
           (tasks # snd (perform_download env ddir ffmpeg_env ydl tid request tasks)))) \<and>
         (\<forall>s \<in> set (statuses tid
           (tasks # snd (perform_download env ddir ffmpeg_env ydl tid request tasks))).
            known_status s)"
proof -
  let ?started = "tasks(tid \<mapsto> task\<lparr>status := ''downloading''\<rparr>)"
  let ?run = "ydl (build_ydl_opts ddir ffmpeg_env request) (req_url request)"
  obtain exc tasks' obs where db: "download_body env ddir ?run tid ?started = (exc, tasks', obs)"
    by (metis prod.exhaust)
  have s: "?started tid = Some (task\<lparr>status := ''downloading''\<rparr>)"
    by simp
  have f: "in_flight (status (task\<lparr>status := ''downloading''\<rparr>))"
    by (simp add: in_flight_def)
  from download_body_shape [OF db s f] obtain t' where
    t': "tasks' tid = Some t'"
        "\<forall>s \<in> set (statuses tid obs). known_status s"
        "sorted (map rank (''downloading'' # statuses tid obs @ [status t']))"
        "case exc of None \<Rightarrow> status t' = ''completed'' \<and> error t' = None \<and>
                               endTime t' = Some (end_time ?run)
         | Some e \<Rightarrow> in_flight (status t')"
    by auto
  have base: "sorted (map rank (''downloading'' # statuses tid obs))"
             "\<forall>s \<in> set (statuses tid obs). rank s \<le> rank (status t')"
    using t'(3) by (auto simp: sorted_append)
  have one: "\<forall>s \<in> set (statuses tid obs). 1 \<le> rank s"
    using base(1) by (auto simp: rank_values)
  show ?thesis
  proof (cases "\<exists>e. exc = Some e \<and> is_Exception e")
    case False
    then have "snd (perform_download env ddir ffmpeg_env ydl tid request tasks) = ?started # obs"
      using perform_download_outcome [where ydl = ydl, OF assms(1) db] by (auto split: option.splits)
    then have "statuses tid (tasks # snd (perform_download env ddir ffmpeg_env ydl tid request tasks))
               = ''queued'' # ''downloading'' # statuses tid obs"
      using assms by (simp add: statuses_Cons)
    with base t'(2) show ?thesis
      by (auto simp: rank_values known_values)
  next
    case True
    then obtain e where e: "exc = Some e" "is_Exception e"
      by blast
    let ?failed = "set_status tid ''failed'' (Some (str_exn e)) None (end_time ?run) tasks'"
    have "snd (perform_download env ddir ffmpeg_env ydl tid request tasks)
            = ?started # obs @ [?failed]"
      using perform_download_outcome [where ydl = ydl, OF assms(1) db] e by simp
    moreover have "statuses tid [?failed] = [''failed'']"
      using t'(1) by (simp add: statuses_Cons statuses_Nil set_status_Some)
    ultimately have st:
      "statuses tid (tasks # snd (perform_download env ddir ffmpeg_env ydl tid request tasks))
         = ''queued'' # ''downloading'' # statuses tid obs @ [''failed'']"
      using assms by (simp add: statuses_Cons statuses_append)
    have "in_flight (status t')"
      using t'(4) e by simp
    then have "\<forall>s \<in> set (statuses tid obs). rank s \<le> 3"
      using base(2) in_flight_rank by fastforce
    with base t'(2) show ?thesis
      by (auto simp: st rank_values known_values sorted_append)
  qed
qed

theorem status_never_regresses_witness:
  "registry_of queued_task ''t1'' = Some queued_task \<and>
   status queued_task = ''queued'' \<and>
   statuses ''t1'' (registry_of queued_task #
      snd (perform_download example_env DOWNLOAD_DIR None (constant_ydl completed_run) ''t1''
             example_request (registry_of queued_task)))
     = [''queued'', ''downloading'', ''downloading'', ''post-processing'', ''completed''] \<and>
   map rank [''queued'', ''downloading'', ''downloading'', ''post-processing'', ''completed'']
     = [0, 1, 1, 2, 3] \<and>
   list_all known_status
     [''queued'', ''downloading'', ''downloading'', ''post-processing'', ''completed'']"
proof -
  have h: "registry_of queued_task ''t1'' = Some queued_task"
    by (simp add: registry_of_def queued_task_def)
  have q: "status queued_task = ''queued''"
    by (simp add: queued_task_def)
  have st: "statuses ''t1'' (registry_of queued_task #
      snd (perform_download example_env DOWNLOAD_DIR None (constant_ydl completed_run) ''t1''
             example_request (registry_of queued_task)))
     = [''queued'', ''downloading'', ''downloading'', ''post-processing'', ''completed'']"
    by (simp add: example_defs model_defs)
  from status_never_regresses [where ydl = "constant_ydl completed_run"
      and tasks = "registry_of queued_task" and tid = "''t1''" and task = queued_task
      and env = example_env and ddir = DOWNLOAD_DIR and ffmpeg_env = None
      and request = example_request] h q st
  show ?thesis
    by (simp add: rank_values)
qed

section \<open>Progress reports\<close>

text \<open>
  Claim C7, as the code has it. \<^verbatim>\<open>update_progress\<close> stores the percent, eta, speed
  and message it is given, unchanged, and leaves the status as it is. The hook passes
  \<^verbatim>\<open>float\<close> of the cleaned percent string, or zero when that string is \<^verbatim>\<open>N/A\<close> or
  empty.
\<close>

theorem update_progress_writes_verbatim:
  assumes "tasks tid = Some task"
  shows "(\<exists>task'. update_progress tid pc e sp msg tasks tid = Some task' \<and>
            progress task' = \<lparr>percent = pc, eta = e, speed = sp, status_message = msg\<rparr> \<and>
            status task' = status task) \<and>
         (d_status d = Some ''downloading'' \<longrightarrow>
          progress_hook env tid now d (fin, tasks) = (None, (fin', tasks')) \<longrightarrow>
          (\<exists>task'. tasks' tid = Some task' \<and> status task' = status task \<and>
             (if percent_cleaned env d \<noteq> ''N/A'' \<and> percent_cleaned env d \<noteq> []
              then float_of env (percent_cleaned env d) = Inr (percent (progress task'))
              else percent (progress task') = 0)))"
  using assms progress_hook_downloading [of d tasks tid task env now fin fin' tasks']
  by (simp add: update_progress_Some)

theorem update_progress_writes_verbatim_witness:
  "registry_of downloading_task ''t1'' = Some downloading_task \<and>
   d_status downloading_dict = Some ''downloading'' \<and>
   map_option (percent \<circ> progress)
     (snd (snd (progress_hook example_env ''t1'' 4 downloading_dict
                  (None, registry_of downloading_task))) ''t1'') = Some 150 \<and>
   map_option status
     (snd (snd (progress_hook example_env ''t1'' 4 downloading_dict
                  (None, registry_of downloading_task))) ''t1'') = Some ''downloading''"
proof -
  have h: "registry_of downloading_task ''t1'' = Some downloading_task"
    by (simp add: registry_of_def downloading_task_def queued_task_def)
  have d: "d_status downloading_dict = Some ''downloading''"
    by (simp add: downloading_dict_def)
  from update_progress_writes_verbatim [where tasks = "registry_of downloading_task"
        and tid = "''t1''" and task = downloading_task
        and d = downloading_dict and env = example_env and now = 4 and fin = None
        and fin' = None
        and tasks' = "update_progress ''t1'' 150 ''00:10'' ''1MiB/s''
                        ''Downloading: Song (abc).mp4 150.0%'' (registry_of downloading_task)"]
    h d progress_hook_example
  show ?thesis
    by (auto simp: update_progress_Some downloading_task_def)
qed

text \<open>
  Claim C7 as stated fails: a report of 150 percent is stored as 150, and a report on a
  queued record leaves it queued.
\<close>

theorem update_progress_no_clamp_no_status:
  "map_option (percent \<circ> progress)
     (update_progress ''t1'' 150 ''00:10'' ''1MiB/s'' ''m'' (registry_of queued_task) ''t1'') = Some 150 \<and>
   \<not> (150 \<le> (100::real)) \<and>
   map_option status
     (update_progress ''t1'' 150 ''00:10'' ''1MiB/s'' ''m'' (registry_of queued_task) ''t1'') = Some ''queued'' \<and>
   \<not> terminal ''queued''"
  by (simp add: update_progress_def registry_of_def queued_task_def terminal_def)

section \<open>The stored file name\<close>

text \<open>
  Claim C8. Whenever \<^verbatim>\<open>set_status\<close> leaves a file name in the record, it is the base
  name of the path it was given: it contains no path separator, so it is not an absolute
  path and names no other directory.
\<close>

theorem set_status_filepath_base_name:
  assumes "tasks tid = Some task"
      and "set_status tid st err fp now tasks tid = Some task'"
      and "filepath task' = Some f"
  shows "truthy fp \<and> f = basename (the fp) \<and> CHR ''/'' \<notin> set f \<and> \<not> prefix ''/'' f"
proof -
  from assms have a: "truthy fp \<and> f = basename (the fp)"
    by (auto simp: set_status_Some split: if_splits)
  then have b: "CHR ''/'' \<notin> set f"
    using basename_no_sep by simp
  then have "\<not> prefix ''/'' f"
    by (auto simp: prefix_def)
  with a b show ?thesis by simp
qed

theorem set_status_filepath_base_name_witness:
  "registry_of queued_task ''t1'' = Some queued_task \<and>
   map_option filepath
     (set_status ''t1'' ''completed'' None (Some ''/srv/app/downloads/Song (abc).mp3'') 7
        (registry_of queued_task) ''t1'')
     = Some (Some ''Song (abc).mp3'') \<and>
   CHR ''/'' \<notin> set ''Song (abc).mp3'' \<and> \<not> prefix ''/'' ''Song (abc).mp3''"
proof -
  have h: "registry_of queued_task ''t1'' = Some queued_task"
    by (simp add: registry_of_def queued_task_def)
  have b: "basename ''/srv/app/downloads/Song (abc).mp3'' = ''Song (abc).mp3''"
    by (simp add: basename_def)
  have s: "set_status ''t1'' ''completed'' None (Some ''/srv/app/downloads/Song (abc).mp3'') 7
             (registry_of queued_task) ''t1''
           = Some (queued_task\<lparr>status := ''completed'', error := None,
                     filepath := Some ''Song (abc).mp3'', endTime := Some 7\<rparr>)"
    using h b by (simp add: set_status_Some)
  have f: "filepath (queued_task\<lparr>status := ''completed'', error := None,
                     filepath := Some ''Song (abc).mp3'', endTime := Some 7\<rparr>)
           = Some ''Song (abc).mp3''"
    by simp
  from set_status_filepath_base_name [OF h s f] s show ?thesis
    using h by simp
qed

section \<open>Submission without a URL\<close>

text \<open>
  Claim C9. A submit request whose URL is missing or empty is answered with an error,
  whatever the URL check accepts, and the server state (registry and scheduled units)
  is unchanged: no task id is returned and no record is created. The handler's own
  guard answers an empty URL with status 400 before \<^verbatim>\<open>initiate_download_task\<close> is
  called.
\<close>

theorem empty_url_rejected:
  assumes "body_url body = None \<or> body_url body = Some []"
  shows "(\<exists>code msg. post_start is_http_url uid now body sv = (Inl (HTTPException code msg), sv)) \<and>
         (req_url request = [] \<longrightarrow>
          start_download uid now request sv = (Inl (HTTPException 400 ''URL is required.''), sv))"
  using assms
  by (auto simp: post_start_def validate_request_def start_download_def split: option.splits)

theorem empty_url_rejected_witness:
  "body_url empty_url_body = Some [] \<and>
   req_url (example_request\<lparr>req_url := []\<rparr>) = [] \<and>
   post_start accept_all ''id-1'' 3 empty_url_body empty_server
     = (Inl (HTTPException 400 ''URL is required.''), empty_server) \<and>
   start_download ''id-1'' 3 (example_request\<lparr>req_url := []\<rparr>) empty_server
     = (Inl (HTTPException 400 ''URL is required.''), empty_server)"
  using empty_url_rejected [where body = empty_url_body and is_http_url = accept_all
      and uid = "''id-1''" and now = 3 and sv = empty_server
      and request = "example_request\<lparr>req_url := []\<rparr>"]
  by (simp add: empty_url_body_def post_start_def validate_request_def start_download_def
        accept_all_def)

section \<open>The guard of artifact retrieval is a string prefix test\<close>

text \<open>
  Claim C10. An existing file is served exactly when the string of its resolved path
  starts with the string of the resolved download directory. A file in a sibling
  directory whose name extends the name of the download directory passes.
\<close>

theorem served_iff_string_prefix:
  assumes "is_file fs (path_div ddir filename)"
  shows "(snd (get_downloaded_file fs ddir filename) = Inr (FileResponse (path_div ddir filename) filename))
         = prefix (resolve fs ddir) (resolve fs (path_div ddir filename))"
  using assms by (simp add: get_downloaded_file_def Let_def)

theorem served_iff_string_prefix_witness:
  "is_file sibling_fs (path_div DOWNLOAD_DIR ''../downloads-evil/secret.txt'') \<and>
   resolve sibling_fs (path_div DOWNLOAD_DIR ''../downloads-evil/secret.txt'') = ''/srv/app/downloads-evil/secret.txt'' \<and>
   \<not> path_within DOWNLOAD_DIR ''/srv/app/downloads-evil/secret.txt'' \<and>
   snd (get_downloaded_file sibling_fs DOWNLOAD_DIR ''../downloads-evil/secret.txt'')
     = Inr (FileResponse ''/srv/app/downloads/../downloads-evil/secret.txt'' ''../downloads-evil/secret.txt'')"
proof -
  have p: "path_div DOWNLOAD_DIR ''../downloads-evil/secret.txt'' = ''/srv/app/downloads/../downloads-evil/secret.txt''"
    by (rule path_div_sibling)
  have h: "is_file sibling_fs (path_div DOWNLOAD_DIR ''../downloads-evil/secret.txt'')"
    by (simp add: p sibling_fs_def plain_fs_def resolve_sibling)
  have r: "resolve sibling_fs (path_div DOWNLOAD_DIR ''../downloads-evil/secret.txt'') = ''/srv/app/downloads-evil/secret.txt''"
    by (simp add: p sibling_fs_def plain_fs_def resolve_sibling)
  have d: "resolve sibling_fs DOWNLOAD_DIR = ''/srv/app/downloads''"
    by (simp add: sibling_fs_def plain_fs_def DOWNLOAD_DIR_def resolve_dir)
  have w: "\<not> path_within DOWNLOAD_DIR ''/srv/app/downloads-evil/secret.txt''"
    by (simp add: path_within_def DOWNLOAD_DIR_def)
  from served_iff_string_prefix [OF h] h r d w p show ?thesis
    by simp
qed

end
